theory Spec2Isabelle
  imports Complex_Main "HOL-Library.AList"
begin

section \<open>Values read from the upstream API\<close>

text \<open>
  The extractor hands on what \<^verbatim>\<open>response.json()\<close> returns: Python values built from
  \<^verbatim>\<open>None\<close>, booleans, numbers, strings, lists and dictionaries. A dictionary keeps its
  insertion order, so it is an association list; \<^verbatim>\<open>d[k] = v\<close> is \<^const>\<open>AList.update\<close>
  (in place for a key that is there, at the end for a new one) and \<^verbatim>\<open>d.pop(k)\<close> is
  \<^const>\<open>AList.delete\<close>. Numbers are rationals: the code only compares them with zero and
  with each other. A Python boolean is an \<^verbatim>\<open>int\<close> (\<^verbatim>\<open>True == 1\<close>), which \<open>num_of\<close> follows.
\<close>

datatype json =
    JNull
  | JBool bool
  | JNum rat
  | JStr string
  | JArr "json list"
  | JObj "(string \<times> json) list"

datatype exn = AttributeError | TypeError

text \<open>Truth value of a Python object, as \<^verbatim>\<open>if x:\<close> and \<^verbatim>\<open>x or y\<close> test it.\<close>

fun truthy :: "json \<Rightarrow> bool" where
  "truthy JNull = False"
| "truthy (JBool b) = b"
| "truthy (JNum q) = (q \<noteq> 0)"
| "truthy (JStr s) = (s \<noteq> [])"
| "truthy (JArr xs) = (xs \<noteq> [])"
| "truthy (JObj kvs) = (kvs \<noteq> [])"

text \<open>\<^verbatim>\<open>d.get(k)\<close> and \<^verbatim>\<open>d.get(k, default)\<close> on a dictionary.\<close>

definition get_default :: "(string \<times> json) list \<Rightarrow> string \<Rightarrow> json \<Rightarrow> json" where
  "get_default d k dflt = (case map_of d k of None \<Rightarrow> dflt | Some v \<Rightarrow> v)"

definition get :: "(string \<times> json) list \<Rightarrow> string \<Rightarrow> json" where
  "get d k = get_default d k JNull"

text \<open>
  \<^verbatim>\<open>for x in v\<close>: a list yields its elements, a string its characters, a dictionary its
  keys; anything else is not iterable.
\<close>

fun iter_items :: "json \<Rightarrow> exn + json list" where
  "iter_items (JArr xs) = Inr xs"
| "iter_items (JStr s) = Inr (map (\<lambda>c. JStr [c]) s)"
| "iter_items (JObj kvs) = Inr (map (\<lambda>kv. JStr (fst kv)) kvs)"
| "iter_items JNull = Inl TypeError"
| "iter_items (JBool b) = Inl TypeError"
| "iter_items (JNum q) = Inl TypeError"

text \<open>
  \<^verbatim>\<open>str.upper()\<close> on the ASCII letters, which is all the status tables of the code
  mention; every other character is left as it is.
\<close>

definition upper_char :: "char \<Rightarrow> char" where
  "upper_char c =
     (case map_of (zip ''abcdefghijklmnopqrstuvwxyz'' ''ABCDEFGHIJKLMNOPQRSTUVWXYZ'') c of
        None \<Rightarrow> c
      | Some u \<Rightarrow> u)"

definition upper :: "string \<Rightarrow> string" where
  "upper s = map upper_char s"

text \<open>\<^verbatim>\<open>x.upper()\<close> on any value: only a string has the method.\<close>

fun py_upper :: "json \<Rightarrow> exn + string" where
  "py_upper (JStr s) = Inr (upper s)"
| "py_upper JNull = Inl AttributeError"
| "py_upper (JBool b) = Inl AttributeError"
| "py_upper (JNum q) = Inl AttributeError"
| "py_upper (JArr xs) = Inl AttributeError"
| "py_upper (JObj kvs) = Inl AttributeError"

section \<open>Resolving the connector list (transform.py, lines 30-43 and 172-184)\<close>

text \<open>
  \<^verbatim>\<open>connector['type'] = conn_type\<close> needs a dictionary; on a string, a list or a number
  the item assignment raises \<^verbatim>\<open>TypeError\<close>.
\<close>

fun stamp :: "string \<Rightarrow> json \<Rightarrow> exn + json" where
  "stamp t (JObj c) = Inr (JObj (AList.update ''type'' (JStr t) c))"
| "stamp t JNull = Inl TypeError"
| "stamp t (JBool b) = Inl TypeError"
| "stamp t (JNum q) = Inl TypeError"
| "stamp t (JStr s) = Inl TypeError"
| "stamp t (JArr xs) = Inl TypeError"

fun stamp_all :: "string \<Rightarrow> json list \<Rightarrow> exn + json list" where
  "stamp_all t [] = Inr []"
| "stamp_all t (c # cs) =
     (case stamp t c of
        Inl e \<Rightarrow> Inl e
      | Inr c' \<Rightarrow> (case stamp_all t cs of Inl e \<Rightarrow> Inl e | Inr cs' \<Rightarrow> Inr (c' # cs')))"

text \<open>
  The double loop over \<^verbatim>\<open>grouping.items()\<close>: every connector of every group is stamped
  with the group's key and appended to one list.
\<close>

fun flatten_groups :: "(string \<times> json) list \<Rightarrow> exn + json list" where
  "flatten_groups [] = Inr []"
| "flatten_groups (g # gs) =
     (case iter_items (snd g) of
        Inl e \<Rightarrow> Inl e
      | Inr cs \<Rightarrow>
          (case stamp_all (fst g) cs of
             Inl e \<Rightarrow> Inl e
           | Inr cs' \<Rightarrow>
               (case flatten_groups gs of Inl e \<Rightarrow> Inl e | Inr rest \<Rightarrow> Inr (cs' @ rest))))"

text \<open>\<^verbatim>\<open>grouping.items()\<close> exists on a dictionary only.\<close>

fun flatten_grouping :: "json \<Rightarrow> exn + json list" where
  "flatten_grouping (JObj gs) = flatten_groups gs"
| "flatten_grouping JNull = Inl AttributeError"
| "flatten_grouping (JBool b) = Inl AttributeError"
| "flatten_grouping (JNum q) = Inl AttributeError"
| "flatten_grouping (JStr s) = Inl AttributeError"
| "flatten_grouping (JArr xs) = Inl AttributeError"

text \<open>
  The priority order of both transformers: a \<^verbatim>\<open>connectors\<close> entry that is there and truthy
  is taken as it is (whatever it is); else \<^verbatim>\<open>connectionTypes\<close> is flattened; else
  \<^verbatim>\<open>connectionsTypes\<close>; else the list stays empty.
\<close>

definition resolve_connectors :: "(string \<times> json) list \<Rightarrow> exn + json" where
  "resolve_connectors station =
     (if ''connectors'' \<in> fst ` set station \<and> truthy (get station ''connectors'')
        then Inr (get station ''connectors'')
      else if ''connectionTypes'' \<in> fst ` set station
        then map_sum id JArr (flatten_grouping (get station ''connectionTypes''))
      else if ''connectionsTypes'' \<in> fst ` set station
        then map_sum id JArr (flatten_grouping (get station ''connectionsTypes''))
      else Inr (JArr []))"

section \<open>Station derivation (transform.py, transform_stations_data)\<close>

text \<open>The dictionary \<^verbatim>\<open>connector_counts\<close> with its five fixed keys.\<close>

record connector_counts =
  cnt_CCS :: nat
  cnt_CHAdeMO :: nat
  cnt_Type2 :: nat
  cnt_AC_Type_2 :: nat
  cnt_Other :: nat

definition zero_counts :: connector_counts where
  "zero_counts = \<lparr>cnt_CCS = 0, cnt_CHAdeMO = 0, cnt_Type2 = 0, cnt_AC_Type_2 = 0, cnt_Other = 0\<rparr>"

text \<open>
  \<^verbatim>\<open>if connector_type in connector_counts: connector_counts[connector_type] += 1\<close>,
  else \<^verbatim>\<open>Other\<close>. The membership test hashes the type, which fails on a list or a
  dictionary; a value that is no string is never a key.
\<close>

definition bump_str :: "string \<Rightarrow> connector_counts \<Rightarrow> connector_counts" where
  "bump_str t c =
     (if t = ''CCS'' then c\<lparr>cnt_CCS := cnt_CCS c + 1\<rparr>
      else if t = ''CHAdeMO'' then c\<lparr>cnt_CHAdeMO := cnt_CHAdeMO c + 1\<rparr>
      else if t = ''Type2'' then c\<lparr>cnt_Type2 := cnt_Type2 c + 1\<rparr>
      else if t = ''AC Type 2'' then c\<lparr>cnt_AC_Type_2 := cnt_AC_Type_2 c + 1\<rparr>
      else c\<lparr>cnt_Other := cnt_Other c + 1\<rparr>)"

fun bump_count :: "json \<Rightarrow> connector_counts \<Rightarrow> exn + connector_counts" where
  "bump_count (JStr t) c = Inr (bump_str t c)"
| "bump_count (JArr xs) c = Inl TypeError"
| "bump_count (JObj kvs) c = Inl TypeError"
| "bump_count JNull c = Inr (c\<lparr>cnt_Other := cnt_Other c + 1\<rparr>)"
| "bump_count (JBool b) c = Inr (c\<lparr>cnt_Other := cnt_Other c + 1\<rparr>)"
| "bump_count (JNum q) c = Inr (c\<lparr>cnt_Other := cnt_Other c + 1\<rparr>)"

text \<open>The three variables the loop over the connectors updates.\<close>

record tally =
  counts :: connector_counts
  available_connectors :: nat
  total_connectors :: rat

text \<open>
  One turn of the loop at lines 50-62; \<open>n\<close> is \<^verbatim>\<open>len(connectors_list)\<close>, which is
  positive inside the loop, so \<^verbatim>\<open>total_connectors or (len(...) if ... else 0)\<close> keeps a
  non-zero total and replaces a zero one by \<open>n\<close>.
\<close>

fun count_connector :: "nat \<Rightarrow> json \<Rightarrow> tally \<Rightarrow> exn + tally" where
  "count_connector n (JObj c) t =
     (case bump_count (get c ''type'') (counts t) of
        Inl e \<Rightarrow> Inl e
      | Inr cc \<Rightarrow>
          (case py_upper (get_default c ''status'' (JStr [])) of
             Inl e \<Rightarrow> Inl e
           | Inr s \<Rightarrow>
               Inr \<lparr>counts = cc,
                    available_connectors =
                      (if s = ''AVAILABLE'' then available_connectors t + 1
                       else available_connectors t),
                    total_connectors =
                      (if total_connectors t \<noteq> 0 then total_connectors t else of_nat n)\<rparr>))"
| "count_connector n JNull t = Inl AttributeError"
| "count_connector n (JBool b) t = Inl AttributeError"
| "count_connector n (JNum q) t = Inl AttributeError"
| "count_connector n (JStr s) t = Inl AttributeError"
| "count_connector n (JArr xs) t = Inl AttributeError"

fun count_connectors :: "nat \<Rightarrow> json list \<Rightarrow> tally \<Rightarrow> exn + tally" where
  "count_connectors n [] t = Inr t"
| "count_connectors n (c # cs) t =
     (case count_connector n c t of Inl e \<Rightarrow> Inl e | Inr t' \<Rightarrow> count_connectors n cs t')"

text \<open>
  \<^verbatim>\<open>isinstance(station['totalConnectors'], (int, float))\<close> holds for numbers and for
  booleans; the value then starts the total, which is 0 otherwise.
\<close>

fun num_of :: "json \<Rightarrow> rat option" where
  "num_of (JNum q) = Some q"
| "num_of (JBool b) = Some (if b then 1 else 0)"
| "num_of JNull = None"
| "num_of (JStr s) = None"
| "num_of (JArr xs) = None"
| "num_of (JObj kvs) = None"

definition initial_total :: "(string \<times> json) list \<Rightarrow> rat" where
  "initial_total station =
     (if ''totalConnectors'' \<in> fst ` set station
      then (case num_of (get station ''totalConnectors'') of None \<Rightarrow> 0 | Some q \<Rightarrow> q)
      else 0)"

text \<open>The synonym table of lines 77-84, and \<^verbatim>\<open>status_mapping.get(status.upper(), status)\<close>.\<close>

definition station_status_mapping :: "(string \<times> string) list" where
  "station_status_mapping =
     [(''AVAILABLE'', ''Available''),
      (''OCCUPIED'', ''Occupied''),
      (''UNAVAILABLE'', ''OutOfOrder''),
      (''OUT_OF_ORDER'', ''OutOfOrder''),
      (''PLANNED'', ''Planned''),
      (''UNDER_CONSTRUCTION'', ''UnderConstruction'')]"

definition map_station_status :: "string \<Rightarrow> string" where
  "map_station_status s =
     (case map_of station_status_mapping (upper s) of None \<Rightarrow> s | Some m \<Rightarrow> m)"

text \<open>Lines 73-103: the status of the station from the two counts and its own status.\<close>

definition derive_status :: "(string \<times> json) list \<Rightarrow> rat \<Rightarrow> nat \<Rightarrow> json" where
  "derive_status station tot avail =
     (if tot = 0 then
        (case get station ''status'' of
           JStr s \<Rightarrow> if s \<noteq> [] then JStr (map_station_status s) else JStr s
         | v \<Rightarrow> v)
      else if avail > 0 then JStr ''Available''
      else if avail = 0 \<and> tot > 0 then JStr ''Occupied''
      else
        (case get_default station ''status'' (JStr []) of
           JStr s \<Rightarrow>
             if upper s \<in> set [''UNAVAILABLE'', ''OUT_OF_ORDER''] then JStr ''OutOfOrder''
             else if upper s \<in> set [''PLANNED''] then JStr ''Planned''
             else if upper s \<in> set [''UNDER_CONSTRUCTION''] then JStr ''UnderConstruction''
             else JStr ''Occupied''
         | v \<Rightarrow> JStr ''Occupied''))"

text \<open>
  \<^verbatim>\<open>location.get('lat') if location else None\<close>: a truthy location that is no dictionary
  has no \<^verbatim>\<open>get\<close>.
\<close>

definition coordinate :: "json \<Rightarrow> string \<Rightarrow> exn + json" where
  "coordinate location k =
     (if truthy location
      then (case location of JObj l \<Rightarrow> Inr (get l k) | v \<Rightarrow> Inl AttributeError)
      else Inr JNull)"

text \<open>\<^verbatim>\<open>', '.join(xs)\<close>: every item has to be a string.\<close>

fun str_items :: "json list \<Rightarrow> exn + string list" where
  "str_items [] = Inr []"
| "str_items (JStr s # xs) = (case str_items xs of Inl e \<Rightarrow> Inl e | Inr ss \<Rightarrow> Inr (s # ss))"
| "str_items (v # xs) = Inl TypeError"

fun join_with :: "string \<Rightarrow> string list \<Rightarrow> string" where
  "join_with sep [] = []"
| "join_with sep [s] = s"
| "join_with sep (s # t # ss) = s @ sep @ join_with sep (t # ss)"

definition join_amenities :: "(string \<times> json) list \<Rightarrow> exn + string" where
  "join_amenities station =
     (if truthy (get station ''amenities'')
      then (case iter_items (get_default station ''amenities'' (JArr [])) of
              Inl e \<Rightarrow> Inl e
            | Inr xs \<Rightarrow> (case str_items xs of Inl e \<Rightarrow> Inl e | Inr ss \<Rightarrow> Inr (join_with '', '' ss)))
      else Inr [])"

text \<open>The row of the stations table (lines 106-121).\<close>

record station_record =
  st_id :: json
  st_name :: json
  st_operator :: json
  st_status :: json
  st_address :: json
  st_description :: json
  st_latitude :: json
  st_longitude :: json
  st_total_connectors :: rat
  st_ccs_connectors :: nat
  st_chademo_connectors :: nat
  st_type2_connectors :: nat
  st_other_connectors :: nat
  st_amenities :: string

text \<open>
  The body of the \<^verbatim>\<open>try\<close> block for one station that is a dictionary. Line 65 adds the
  \<^verbatim>\<open>AC Type 2\<close> count to the \<^verbatim>\<open>Type2\<close> count; line 118 then reads
  \<^verbatim>\<open>connector_counts['Type2'] + connector_counts['AC Type 2']\<close> from the updated dictionary.
\<close>

definition fold_ac_type2 :: "connector_counts \<Rightarrow> connector_counts" where
  "fold_ac_type2 c = c\<lparr>cnt_Type2 := cnt_Type2 c + cnt_AC_Type_2 c\<rparr>"

definition station_row :: "(string \<times> json) list \<Rightarrow> exn + station_record" where
  "station_row station =
     (case resolve_connectors station of
        Inl e \<Rightarrow> Inl e
      | Inr connectors_list \<Rightarrow>
     (case iter_items connectors_list of
        Inl e \<Rightarrow> Inl e
      | Inr cs \<Rightarrow>
     (case count_connectors (length cs) cs
             \<lparr>counts = zero_counts, available_connectors = 0,
              total_connectors = initial_total station\<rparr> of
        Inl e \<Rightarrow> Inl e
      | Inr t \<Rightarrow>
     (let cc = fold_ac_type2 (counts t);
          location = get_default station ''location'' (JObj [])
      in
     (case coordinate location ''lat'' of
        Inl e \<Rightarrow> Inl e
      | Inr latitude \<Rightarrow>
     (case coordinate location ''lng'' of
        Inl e \<Rightarrow> Inl e
      | Inr longitude \<Rightarrow>
     (case join_amenities station of
        Inl e \<Rightarrow> Inl e
      | Inr amenities \<Rightarrow>
          Inr \<lparr>st_id = get station ''id'',
               st_name = get station ''name'',
               st_operator = get_default station ''operator'' (JStr ''Eviny''),
               st_status = derive_status station (total_connectors t) (available_connectors t),
               st_address = get station ''address'',
               st_description = get station ''description'',
               st_latitude = latitude,
               st_longitude = longitude,
               st_total_connectors = total_connectors t,
               st_ccs_connectors = cnt_CCS cc,
               st_chademo_connectors = cnt_CHAdeMO cc,
               st_type2_connectors = cnt_Type2 cc + cnt_AC_Type_2 cc,
               st_other_connectors = cnt_Other cc,
               st_amenities = amenities\<rparr>)))))))"

text \<open>
  The loop over the stations. An exception in the \<^verbatim>\<open>try\<close> block skips the station. A
  station that is no dictionary makes the block raise (at the latest at
  \<^verbatim>\<open>station.get('location', {})\<close>), and the handler's own \<^verbatim>\<open>station.get('id', 'unknown')\<close>
  then raises \<^verbatim>\<open>AttributeError\<close> out of the function.
\<close>

fun station_rows :: "json list \<Rightarrow> exn + station_record list" where
  "station_rows [] = Inr []"
| "station_rows (JObj station # rest) =
     (case station_rows rest of
        Inl e \<Rightarrow> Inl e
      | Inr rows \<Rightarrow>
          (case station_row station of Inl e \<Rightarrow> Inr rows | Inr r \<Rightarrow> Inr (r # rows)))"
| "station_rows (v # rest) = Inl AttributeError"

text \<open>
  Lines 143-147: a status that is \<^verbatim>\<open>None\<close> in the table becomes \<^verbatim>\<open>'Unknown'\<close>
  (\<^verbatim>\<open>fillna\<close> applied in place to the column).
\<close>

definition fill_unknown :: "station_record \<Rightarrow> station_record" where
  "fill_unknown r = (if st_status r = JNull then r\<lparr>st_status := JStr ''Unknown''\<rparr> else r)"

text \<open>
  The whole function; an empty input gives the empty table. The table is the list of its
  rows, each a \<^typ>\<open>station_record\<close>.
\<close>

definition transform_stations_data :: "json list \<Rightarrow> exn + station_record list" where
  "transform_stations_data stations_data =
     (if stations_data = [] then Inr []
      else map_sum id (map fill_unknown) (station_rows stations_data))"

section \<open>Utilization derivation (transform.py, transform_utilization_data)\<close>

text \<open>
  The poll instant is a \<^verbatim>\<open>datetime\<close>. The columns \<^verbatim>\<open>timestamp\<close> and
  \<^verbatim>\<open>hourly_timestamp\<close> hold its \<^verbatim>\<open>isoformat()\<close> rendering and that of
  \<^verbatim>\<open>timestamp.replace(minute=0, second=0, microsecond=0)\<close>; the model keeps the values
  that are rendered.
\<close>

record datetime =
  dt_year :: nat
  dt_month :: nat
  dt_day :: nat
  dt_hour :: nat
  dt_minute :: nat
  dt_second :: nat
  dt_microsecond :: nat

definition truncate_to_hour :: "datetime \<Rightarrow> datetime" where
  "truncate_to_hour t = t\<lparr>dt_minute := 0, dt_second := 0, dt_microsecond := 0\<rparr>"

text \<open>The synonym table of lines 194-199 for a connector's status.\<close>

definition connector_status_mapping :: "(string \<times> string) list" where
  "connector_status_mapping =
     [(''AVAILABLE'', ''Available''),
      (''OCCUPIED'', ''Occupied''),
      (''UNAVAILABLE'', ''OutOfOrder''),
      (''OUT_OF_ORDER'', ''OutOfOrder'')]"

definition map_connector_status :: "string \<Rightarrow> string" where
  "map_connector_status s =
     (case map_of connector_status_mapping (upper s) of None \<Rightarrow> s | Some m \<Rightarrow> m)"

text \<open>
  Lines 191-200: only a non-empty string is normalized; \<^verbatim>\<open>None\<close>, the empty string and
  every value of another type stay as they are.
\<close>

fun normalize_connector_status :: "json \<Rightarrow> json" where
  "normalize_connector_status (JStr s) = (if s \<noteq> [] then JStr (map_connector_status s) else JStr s)"
| "normalize_connector_status JNull = JNull"
| "normalize_connector_status (JBool b) = JBool b"
| "normalize_connector_status (JNum q) = JNum q"
| "normalize_connector_status (JArr xs) = JArr xs"
| "normalize_connector_status (JObj kvs) = JObj kvs"

record utilization_record =
  ut_timestamp :: datetime
  ut_hourly_timestamp :: datetime
  ut_station_id :: json
  ut_connector_id :: json
  ut_connector_type :: json
  ut_power :: json
  ut_status :: json
  ut_is_occupied :: nat
  ut_is_available :: nat
  ut_is_out_of_order :: nat
  ut_tariff :: json

text \<open>Lines 187-218: the record of one connector that is a dictionary.\<close>

definition connector_record ::
    "datetime \<Rightarrow> datetime \<Rightarrow> json \<Rightarrow> (string \<times> json) list \<Rightarrow> utilization_record" where
  "connector_record timestamp hourly_timestamp station_id connector =
     (let connector_status = normalize_connector_status (get connector ''status'') in
      \<lparr>ut_timestamp = timestamp,
       ut_hourly_timestamp = hourly_timestamp,
       ut_station_id = station_id,
       ut_connector_id = get connector ''id'',
       ut_connector_type = get connector ''type'',
       ut_power = get_default connector ''power'' (get connector ''effect''),
       ut_status = connector_status,
       ut_is_occupied = (if connector_status = JStr ''Occupied'' then 1 else 0),
       ut_is_available = (if connector_status = JStr ''Available'' then 1 else 0),
       ut_is_out_of_order =
         (if connector_status \<in> set [JStr ''OutOfOrder'', JStr ''UNAVAILABLE''] then 1 else 0),
       ut_tariff = get_default connector ''tariffDefinition'' (JStr [])\<rparr>)"

text \<open>
  The loop over the connectors of one station. The records are appended one by one, so
  when a connector is no dictionary (\<^verbatim>\<open>connector.get\<close> raises) the records of the
  connectors before it stay and the rest of the station is skipped.
\<close>

fun connector_records :: "datetime \<Rightarrow> datetime \<Rightarrow> json \<Rightarrow> json list \<Rightarrow> utilization_record list" where
  "connector_records ts hts sid [] = []"
| "connector_records ts hts sid (JObj c # cs) =
     connector_record ts hts sid c # connector_records ts hts sid cs"
| "connector_records ts hts sid (v # cs) = []"

text \<open>One station that is a dictionary: an exception before the loop leaves no record.\<close>

definition station_utilization ::
    "datetime \<Rightarrow> datetime \<Rightarrow> (string \<times> json) list \<Rightarrow> utilization_record list" where
  "station_utilization ts hts station =
     (case resolve_connectors station of
        Inl e \<Rightarrow> []
      | Inr connectors_list \<Rightarrow>
          (case iter_items connectors_list of
             Inl e \<Rightarrow> []
           | Inr cs \<Rightarrow> connector_records ts hts (get station ''id'') cs))"

text \<open>
  The loop over the stations; a station that is no dictionary raises at
  \<^verbatim>\<open>station.get('id')\<close> and again in the handler, out of the function.
\<close>

fun utilization_rows :: "datetime \<Rightarrow> datetime \<Rightarrow> json list \<Rightarrow> exn + utilization_record list" where
  "utilization_rows ts hts [] = Inr []"
| "utilization_rows ts hts (JObj station # rest) =
     (case utilization_rows ts hts rest of
        Inl e \<Rightarrow> Inl e
      | Inr rows \<Rightarrow> Inr (station_utilization ts hts station @ rows))"
| "utilization_rows ts hts (v # rest) = Inl AttributeError"

definition transform_utilization_data :: "json list \<Rightarrow> datetime \<Rightarrow> exn + utilization_record list" where
  "transform_utilization_data stations_data timestamp =
     (if stations_data = [] then Inr []
      else utilization_rows timestamp (truncate_to_hour timestamp) stations_data)"

section \<open>Hourly aggregation (transform.py, aggregate_hourly_utilization)\<close>

text \<open>
  The quotient of two integer columns is a float column: a zero divisor gives
  \<^verbatim>\<open>inf\<close> for a positive dividend and \<^verbatim>\<open>NaN\<close> for a zero one.
\<close>

datatype rate = Rate rat | RateInf | RateNaN

definition divide_counts :: "nat \<Rightarrow> nat \<Rightarrow> rate" where
  "divide_counts a b =
     (if b = 0 then (if a = 0 then RateNaN else RateInf) else Rate (of_nat a / of_nat b))"

fun in_unit_interval :: "rate \<Rightarrow> bool" where
  "in_unit_interval (Rate q) = (0 \<le> q \<and> q \<le> 1)"
| "in_unit_interval RateInf = False"
| "in_unit_interval RateNaN = False"

record hourly_row =
  hr_hourly_timestamp :: datetime
  hr_station_id :: json
  hr_is_available :: nat
  hr_is_occupied :: nat
  hr_is_out_of_order :: nat
  hr_total_connectors :: nat
  hr_occupancy_rate :: rate
  hr_availability_rate :: rate

text \<open>
  \<^verbatim>\<open>groupby(['hourly_timestamp', 'station_id'])\<close> hashes the keys (a list or a
  dictionary as station id raises \<^verbatim>\<open>TypeError\<close>) and drops the rows whose key holds a
  missing value. \<^verbatim>\<open>'sum'\<close> adds a flag over the group; \<^verbatim>\<open>'count'\<close> on
  \<^verbatim>\<open>connector_id\<close> counts the rows of the group whose connector id is not missing.
  pandas lists the groups sorted by key; the model lists each key once, in the order
  \<^const>\<open>remdups\<close> leaves, and nothing below depends on the order.
\<close>

fun unhashable :: "json \<Rightarrow> bool" where
  "unhashable (JArr xs) = True"
| "unhashable (JObj kvs) = True"
| "unhashable JNull = False"
| "unhashable (JBool b) = False"
| "unhashable (JNum q) = False"
| "unhashable (JStr s) = False"

definition group_key :: "utilization_record \<Rightarrow> datetime \<times> json" where
  "group_key r = (ut_hourly_timestamp r, ut_station_id r)"

definition aggregate_group :: "datetime \<times> json \<Rightarrow> utilization_record list \<Rightarrow> hourly_row" where
  "aggregate_group k grp =
     (let is_available = sum_list (map ut_is_available grp);
          is_occupied = sum_list (map ut_is_occupied grp);
          is_out_of_order = sum_list (map ut_is_out_of_order grp);
          total_connectors = length (filter (\<lambda>r. ut_connector_id r \<noteq> JNull) grp)
      in \<lparr>hr_hourly_timestamp = fst k,
          hr_station_id = snd k,
          hr_is_available = is_available,
          hr_is_occupied = is_occupied,
          hr_is_out_of_order = is_out_of_order,
          hr_total_connectors = total_connectors,
          hr_occupancy_rate = divide_counts is_occupied total_connectors,
          hr_availability_rate = divide_counts is_available total_connectors\<rparr>)"

definition aggregate_hourly_utilization :: "utilization_record list \<Rightarrow> exn + hourly_row list" where
  "aggregate_hourly_utilization utilization_df =
     (if utilization_df = [] then Inr []
      else if list_ex (\<lambda>r. unhashable (ut_station_id r)) utilization_df then Inl TypeError
      else
        (let kept = filter (\<lambda>r. ut_station_id r \<noteq> JNull) utilization_df;
             keys = remdups (map group_key kept)
         in Inr (map (\<lambda>k. aggregate_group k (filter (\<lambda>r. group_key r = k) kept)) keys)))"

text \<open>
  The pipeline feeds the aggregator with the transformer's table
  (main.py, lines 38-41; continuous.py, lines 54-57).
\<close>

definition hourly_from_poll :: "json list \<Rightarrow> datetime \<Rightarrow> exn + hourly_row list" where
  "hourly_from_poll stations_data timestamp =
     (case transform_utilization_data stations_data timestamp of
        Inl e \<Rightarrow> Inl e
      | Inr utilization_df \<Rightarrow> aggregate_hourly_utilization utilization_df)"

text \<open>How many connectors of a resolved list carry exactly the type \<open>t\<close>.\<close>

fun has_type :: "string \<Rightarrow> json \<Rightarrow> bool" where
  "has_type t (JObj c) = (get c ''type'' = JStr t)"
| "has_type t JNull = False"
| "has_type t (JBool b) = False"
| "has_type t (JNum q) = False"
| "has_type t (JStr s) = False"
| "has_type t (JArr xs) = False"

definition type_count :: "string \<Rightarrow> json list \<Rightarrow> nat" where
  "type_count t cs = length (filter (has_type t) cs)"

text \<open>
  The three flags of a record, in the order (is_available, is_occupied, is_out_of_order),
  and the flags a status value stands for.
\<close>

definition flags_of :: "utilization_record \<Rightarrow> nat \<times> nat \<times> nat" where
  "flags_of r = (ut_is_available r, ut_is_occupied r, ut_is_out_of_order r)"

definition expected_flags :: "json \<Rightarrow> nat \<times> nat \<times> nat" where
  "expected_flags s =
     (if s = JStr ''Available'' then (1, 0, 0)
      else if s = JStr ''Occupied'' then (0, 1, 0)
      else if s = JStr ''OutOfOrder'' then (0, 0, 1)
      else (0, 0, 0))"





section \<open>Tables and the persister (load.py, save_to_csv)\<close>

text \<open>
  A table (a pandas \<^verbatim>\<open>DataFrame\<close>) is the list of its column names and the list of its
  rows; a row maps column names to cells, and a column the row has no entry for reads as
  \<^verbatim>\<open>NaN\<close>, which is what the constructor and \<^verbatim>\<open>concat\<close> fill in. A cell is missing
  (\<^verbatim>\<open>NaN\<close>, \<^verbatim>\<open>NaT\<close>), a number, a string or a point in time. The file on disk is
  modelled by the table \<^verbatim>\<open>read_csv\<close> gives for it: the text format of the file is not
  modelled, \<^verbatim>\<open>to_csv\<close> stores the table and \<^verbatim>\<open>read_csv\<close> returns the stored table, or
  fails on a file that cannot be parsed.
\<close>

datatype cell = NaN | Num rat | Str string | Time datetime

type_synonym row = "(string \<times> cell) list"

record dataframe =
  df_columns :: "string list"
  df_rows :: "row list"

datatype csv_file = Unreadable | Csv dataframe

definition cell_at :: "row \<Rightarrow> string \<Rightarrow> cell" where
  "cell_at r c = (case map_of r c of None \<Rightarrow> NaN | Some v \<Rightarrow> v)"

text \<open>\<^verbatim>\<open>df.empty\<close>: no rows or no columns.\<close>

definition df_empty :: "dataframe \<Rightarrow> bool" where
  "df_empty d = (df_rows d = [] \<or> df_columns d = [])"

text \<open>
  \<^verbatim>\<open>pd.concat([existing_df, df], ignore_index=True)\<close>: the rows of the first table, then
  those of the second; the columns of the first, then the new ones of the second.
\<close>

definition concat_frames :: "dataframe \<Rightarrow> dataframe \<Rightarrow> dataframe" where
  "concat_frames a b =
     \<lparr>df_columns = df_columns a @ filter (\<lambda>c. c \<notin> set (df_columns a)) (df_columns b),
      df_rows = df_rows a @ df_rows b\<rparr>"

text \<open>
  \<^verbatim>\<open>drop_duplicates(subset=ks, keep="last")\<close>: a row goes when a later row has the same
  cells in the columns \<open>ks\<close> (two missing cells count as the same).
\<close>

definition key_of :: "string list \<Rightarrow> row \<Rightarrow> cell list" where
  "key_of ks r = map (cell_at r) ks"

fun drop_duplicates_last :: "string list \<Rightarrow> row list \<Rightarrow> row list" where
  "drop_duplicates_last ks [] = []"
| "drop_duplicates_last ks (r # rs) =
     (if key_of ks r \<in> set (map (key_of ks) rs) then drop_duplicates_last ks rs
      else r # drop_duplicates_last ks rs)"

text \<open>\<^verbatim>\<open>str.lower()\<close> on the ASCII letters, and the substring test \<^verbatim>\<open>sub in s\<close>.\<close>

definition lower_char :: "char \<Rightarrow> char" where
  "lower_char c =
     (case map_of (zip ''ABCDEFGHIJKLMNOPQRSTUVWXYZ'' ''abcdefghijklmnopqrstuvwxyz'') c of
        None \<Rightarrow> c
      | Some l \<Rightarrow> l)"

definition lower :: "string \<Rightarrow> string" where
  "lower s = map lower_char s"

fun contains :: "string \<Rightarrow> string \<Rightarrow> bool" where
  "contains sub [] = (sub = [])"
| "contains sub (c # s) = (take (length sub) (c # s) = sub \<or> contains sub s)"

text \<open>
  Lines 31-43: the key the file name selects, tested in the order stations, utilization,
  hourly; a branch whose key columns are not all in the combined table removes nothing.
\<close>

definition dedup_subset :: "string \<Rightarrow> string list \<Rightarrow> string list option" where
  "dedup_subset filename cols =
     (if contains ''stations'' (lower filename) then
        (if ''id'' \<in> set cols then Some [''id''] else None)
      else if contains ''utilization'' (lower filename) then
        (if ''timestamp'' \<in> set cols \<and> ''connector_id'' \<in> set cols
         then Some [''timestamp'', ''connector_id''] else None)
      else if contains ''hourly'' (lower filename) then
        (if ''hourly_timestamp'' \<in> set cols \<and> ''station_id'' \<in> set cols
         then Some [''hourly_timestamp'', ''station_id''] else None)
      else None)"

text \<open>Lines 28-43: the combined table that is written on the merge path.\<close>

definition combine :: "string \<Rightarrow> dataframe \<Rightarrow> dataframe \<Rightarrow> dataframe" where
  "combine filename existing_df df =
     (let combined_df = concat_frames existing_df df in
      case dedup_subset filename (df_columns combined_df) of
        None \<Rightarrow> combined_df
      | Some ks \<Rightarrow> combined_df\<lparr>df_rows := drop_duplicates_last ks (df_rows combined_df)\<rparr>)"

text \<open>
  The function (the parameter \<^verbatim>\<open>append\<close> is \<open>append_flag\<close> here). The state is what is at \<^verbatim>\<open>file_path\<close>: nothing, a file that cannot be
  read, or a table. The result is the returned path (\<^verbatim>\<open>None\<close> when nothing is saved) and
  the new state. \<^verbatim>\<open>os.path.join\<close> is taken for a relative file name. A failure of
  \<^verbatim>\<open>read_csv\<close> is caught at line 51 and control falls through to the overwrite at line 56.
\<close>

definition file_path :: "string \<Rightarrow> string \<Rightarrow> string" where
  "file_path output_dir filename = output_dir @ ''/'' @ filename"

definition save_to_csv ::
    "dataframe option \<Rightarrow> string \<Rightarrow> string \<Rightarrow> bool \<Rightarrow> csv_file option \<Rightarrow>
       string option \<times> csv_file option" where
  "save_to_csv df filename output_dir append_flag file =
     (case df of
        None \<Rightarrow> (None, file)
      | Some d \<Rightarrow>
          if df_empty d then (None, file)
          else if append_flag \<and> file \<noteq> None then
            (case file of
               Some (Csv existing_df) \<Rightarrow>
                 (Some (file_path output_dir filename), Some (Csv (combine filename existing_df d)))
             | other \<Rightarrow> (Some (file_path output_dir filename), Some (Csv d)))
          else (Some (file_path output_dir filename), Some (Csv d)))"

text \<open>
  What the specification says the table is after a merge on the key \<open>ks\<close>: the incoming
  rowset when there is no prior table, else existing followed by incoming with duplicate
  keys removed, the last occurrence kept.
\<close>

definition spec_merge :: "string list \<Rightarrow> dataframe option \<Rightarrow> dataframe \<Rightarrow> dataframe" where
  "spec_merge ks existing incoming =
     (case existing of
        None \<Rightarrow> incoming
      | Some e \<Rightarrow>
          (concat_frames e incoming)
            \<lparr>df_rows := drop_duplicates_last ks (df_rows (concat_frames e incoming))\<rparr>)"

text \<open>The table a file state holds, if any.\<close>

fun table_of :: "csv_file option \<Rightarrow> dataframe option" where
  "table_of (Some (Csv d)) = Some d"
| "table_of (Some Unreadable) = None"
| "table_of None = None"

text \<open>No two rows of a table share the key \<open>ks\<close>.\<close>

definition key_unique :: "string list \<Rightarrow> dataframe \<Rightarrow> bool" where
  "key_unique ks d = distinct (map (key_of ks) (df_rows d))"

text \<open>Saving the same rowset twice in a row under the same name.\<close>

definition save_twice ::
    "dataframe option \<Rightarrow> string \<Rightarrow> string \<Rightarrow> bool \<Rightarrow> csv_file option \<Rightarrow> csv_file option" where
  "save_twice df filename output_dir append_flag file =
     snd (save_to_csv df filename output_dir append_flag
            (snd (save_to_csv df filename output_dir append_flag file)))"


section \<open>Extraction (extract.py, extract_charging_stations)\<close>

text \<open>
  An exception raised by the network part of the \<^verbatim>\<open>try\<close> block (lines 18-22:
  \<^verbatim>\<open>requests.get\<close>, \<^verbatim>\<open>raise_for_status\<close>, \<^verbatim>\<open>response.json\<close>) is told apart by the two
  classes the handlers of lines 72-88 test for, in that order:
  \<^verbatim>\<open>requests.exceptions.RequestException\<close> and \<^verbatim>\<open>ValueError\<close>. An exception can be an
  instance of both.
\<close>

record exception =
  request_exception :: bool
  value_error :: bool

text \<open>
  The exceptions of the library by these classes. Timeouts, connection errors and error
  statuses (\<^verbatim>\<open>raise_for_status\<close>) are \<^verbatim>\<open>RequestException\<close>s. For a body that is not JSON,
  \<^verbatim>\<open>response.json()\<close> raises \<^verbatim>\<open>requests.exceptions.JSONDecodeError\<close> since release 2.27
  of the library: a subclass of \<^verbatim>\<open>InvalidJSONError\<close>, which is a \<^verbatim>\<open>RequestException\<close>, and
  of \<^verbatim>\<open>json.JSONDecodeError\<close>, which is a \<^verbatim>\<open>ValueError\<close>. Earlier releases let the
  decoder's own \<^verbatim>\<open>ValueError\<close> through. The source pins no release.
\<close>

definition Timeout :: exception where
  "Timeout = \<lparr>request_exception = True, value_error = False\<rparr>"

definition ConnectionError :: exception where
  "ConnectionError = \<lparr>request_exception = True, value_error = False\<rparr>"

definition HTTPError :: exception where
  "HTTPError = \<lparr>request_exception = True, value_error = False\<rparr>"

definition JSONDecodeError :: exception where
  "JSONDecodeError = \<lparr>request_exception = True, value_error = True\<rparr>"

definition decoder_ValueError :: exception where
  "decoder_ValueError = \<lparr>request_exception = False, value_error = True\<rparr>"

text \<open>
  What the network part of one attempt comes to: an exception, or the parsed body. The
  server is the function that gives this for the attempt with a given number.
\<close>

datatype attempt_outcome = Raises exception | Response json

text \<open>An outcome that the handler of line 72 catches.\<close>

fun request_failure :: "attempt_outcome \<Rightarrow> bool" where
  "request_failure (Raises e) = request_exception e"
| "request_failure (Response data) = False"

text \<open>What the function does to the world: a request, or a \<^verbatim>\<open>time.sleep\<close>.\<close>

datatype event = Get nat | Sleep int

text \<open>
  What a call comes to: the list it returns, \<^verbatim>\<open>None\<close>, or the \<^verbatim>\<open>ValueError\<close> that
  \<^verbatim>\<open>time.sleep\<close> raises for a negative delay, which leaves the function from inside the
  handler of line 72.
\<close>

datatype extraction = Stations "json list" | No_data | Uncaught_ValueError

text \<open>
  Lines 26-46: the list of stations in the body. \<^verbatim>\<open>None\<close> here is the branch of line 34,
  which returns no data.
\<close>

fun stations_list :: "json \<Rightarrow> json option" where
  "stations_list (JObj data) =
     (if ''chargingStations'' \<in> fst ` set data then Some (get data ''chargingStations'')
      else None)"
| "stations_list (JArr data) = Some (JArr data)"
| "stations_list JNull = None"
| "stations_list (JBool b) = None"
| "stations_list (JNum q) = None"
| "stations_list (JStr s) = None"

text \<open>
  Lines 57-62 on the dictionary \<^verbatim>\<open>station["connectionTypes"]\<close>. The loop appends every
  connector to \<^verbatim>\<open>connectors\<close> after \<^verbatim>\<open>connector["type"] = conn_type\<close>, which writes into
  the connector that the grouping holds: the result is the grouping after the loop and
  the list \<^verbatim>\<open>connectors\<close>. A group that is a string or a dictionary passes only when it
  is empty, and stays as it is.
\<close>

fun restamped :: "json \<Rightarrow> json list \<Rightarrow> json" where
  "restamped (JArr cs) cs' = JArr cs'"
| "restamped JNull cs' = JNull"
| "restamped (JBool b) cs' = JBool b"
| "restamped (JNum q) cs' = JNum q"
| "restamped (JStr s) cs' = JStr s"
| "restamped (JObj kvs) cs' = JObj kvs"

fun flatten_stamping :: "(string \<times> json) list \<Rightarrow> exn + (string \<times> json) list \<times> json list" where
  "flatten_stamping [] = Inr ([], [])"
| "flatten_stamping (g # gs) =
     (case iter_items (snd g) of
        Inl e \<Rightarrow> Inl e
      | Inr cs \<Rightarrow>
          (case stamp_all (fst g) cs of
             Inl e \<Rightarrow> Inl e
           | Inr cs' \<Rightarrow>
               (case flatten_stamping gs of
                  Inl e \<Rightarrow> Inl e
                | Inr (gs', rest) \<Rightarrow> Inr ((fst g, restamped (snd g) cs') # gs', cs' @ rest))))"

text \<open>
  Lines 52-53: \<^verbatim>\<open>station["connectionTypes"] = station.pop("connectionsTypes")\<close> when only
  the second spelling is there; the new key goes to the end of the dictionary.
\<close>

definition rename_grouping :: "(string \<times> json) list \<Rightarrow> (string \<times> json) list" where
  "rename_grouping station =
     (if ''connectionsTypes'' \<in> fst ` set station \<and> ''connectionTypes'' \<notin> fst ` set station
      then AList.update ''connectionTypes'' (get station ''connectionsTypes'')
             (AList.delete ''connectionsTypes'' station)
      else station)"

text \<open>
  Lines 52-65 on a station that is a dictionary. \<^verbatim>\<open>.items()\<close> exists on a dictionary only;
  line 65 sets \<^verbatim>\<open>connectors\<close> whether the key was there or not.
\<close>

definition process_dict :: "(string \<times> json) list \<Rightarrow> exn + (string \<times> json) list" where
  "process_dict raw =
     (let station = rename_grouping raw in
      if ''connectionTypes'' \<in> fst ` set station then
        (case get station ''connectionTypes'' of
           JObj grouping \<Rightarrow>
             (case flatten_stamping grouping of
                Inl e \<Rightarrow> Inl e
              | Inr (grouping', connectors) \<Rightarrow>
                  Inr (AList.update ''connectors'' (JArr connectors)
                         (AList.update ''connectionTypes'' (JObj grouping') station)))
         | JNull \<Rightarrow> Inl AttributeError
         | JBool b \<Rightarrow> Inl AttributeError
         | JNum q \<Rightarrow> Inl AttributeError
         | JStr s \<Rightarrow> Inl AttributeError
         | JArr xs \<Rightarrow> Inl AttributeError)
      else Inr station)"

text \<open>
  Lines 52-67 on any element of the list. On a string \<^verbatim>\<open>in\<close> is the substring test, and
  the string has neither \<^verbatim>\<open>pop\<close> nor string indices; on a list \<^verbatim>\<open>in\<close> is membership, and
  \<^verbatim>\<open>pop\<close> and the index want an integer; on anything else \<^verbatim>\<open>in\<close> itself raises.
\<close>

fun process_station :: "json \<Rightarrow> exn + json" where
  "process_station (JObj station) = map_sum id JObj (process_dict station)"
| "process_station (JStr s) =
     (if contains ''connectionsTypes'' s \<and> \<not> contains ''connectionTypes'' s
        then Inl AttributeError
      else if contains ''connectionTypes'' s then Inl TypeError
      else Inr (JStr s))"
| "process_station (JArr xs) =
     (if JStr ''connectionsTypes'' \<in> set xs \<and> JStr ''connectionTypes'' \<notin> set xs
        then Inl TypeError
      else if JStr ''connectionTypes'' \<in> set xs then Inl TypeError
      else Inr (JArr xs))"
| "process_station JNull = Inl TypeError"
| "process_station (JBool b) = Inl TypeError"
| "process_station (JNum q) = Inl TypeError"

fun process_stations :: "json list \<Rightarrow> exn + json list" where
  "process_stations [] = Inr []"
| "process_stations (station # rest) =
     (case process_station station of
        Inl e \<Rightarrow> Inl e
      | Inr s \<Rightarrow>
          (case process_stations rest of Inl e \<Rightarrow> Inl e | Inr ss \<Rightarrow> Inr (s # ss)))"

text \<open>
  Lines 24-70 on a parsed body. \<^verbatim>\<open>len(stations_list)\<close> in the log line raises on exactly
  the values the \<^verbatim>\<open>for\<close> loop cannot iterate; every exception raised here is a
  \<^verbatim>\<open>TypeError\<close> or an \<^verbatim>\<open>AttributeError\<close>, caught at line 86, and gives no data.
\<close>

definition process_response :: "json \<Rightarrow> extraction" where
  "process_response data =
     (case stations_list data of
        None \<Rightarrow> No_data
      | Some sl \<Rightarrow>
          (case iter_items sl of
             Inl e \<Rightarrow> No_data
           | Inr stations \<Rightarrow>
               (case process_stations stations of
                  Inl e \<Rightarrow> No_data
                | Inr processed_stations \<Rightarrow> Stations processed_stations)))"

text \<open>
  The loop of line 16 over the attempt numbers still to come, with the events in the
  order they happen. A range that is empty lets the function fall off its end, which
  returns \<^verbatim>\<open>None\<close>.
\<close>

fun attempts ::
    "(nat \<Rightarrow> attempt_outcome) \<Rightarrow> int \<Rightarrow> int \<Rightarrow> nat list \<Rightarrow> extraction \<times> event list" where
  "attempts server max_retries retry_delay [] = (No_data, [])"
| "attempts server max_retries retry_delay (attempt # rest) =
     (case server attempt of
        Response data \<Rightarrow> (process_response data, [Get attempt])
      | Raises e \<Rightarrow>
          (if request_exception e then
             (if int attempt < max_retries then
                (if retry_delay < 0 then (Uncaught_ValueError, [Get attempt])
                 else (case attempts server max_retries retry_delay rest of
                         (r, evs) \<Rightarrow> (r, Get attempt # Sleep retry_delay # evs)))
              else (No_data, [Get attempt]))
           else if value_error e then (No_data, [Get attempt])
           else (No_data, [Get attempt])))"

text \<open>\<^verbatim>\<open>range(max_retries + 1)\<close> is empty for a negative bound.\<close>

definition extract_charging_stations ::
    "(nat \<Rightarrow> attempt_outcome) \<Rightarrow> int \<Rightarrow> int \<Rightarrow> extraction \<times> event list" where
  "extract_charging_stations server max_retries retry_delay =
     attempts server max_retries retry_delay [0..<nat (max_retries + 1)]"

text \<open>The attempt numbers of the requests in a list of events, and the delays slept.\<close>

fun requests :: "event list \<Rightarrow> nat list" where
  "requests [] = []"
| "requests (Get i # evs) = i # requests evs"
| "requests (Sleep d # evs) = requests evs"

fun sleeps :: "event list \<Rightarrow> int list" where
  "sleeps [] = []"
| "sleeps (Get i # evs) = sleeps evs"
| "sleeps (Sleep d # evs) = d # sleeps evs"

text \<open>
  The events of a run that makes the requests \<open>is\<close>: one sleep of the fixed delay after
  every request but the last.
\<close>

fun retry_trace :: "int \<Rightarrow> nat list \<Rightarrow> event list" where
  "retry_trace d [] = []"
| "retry_trace d [i] = [Get i]"
| "retry_trace d (i # j # js) = Get i # Sleep d # retry_trace d (j # js)"



section \<open>Validation (data_validation.py, DataValidator)\<close>











subsection \<open>Stations (validate_stations_data)\<close>


















subsection \<open>Timestamps\<close>






subsection \<open>Utilization (validate_utilization_data)\<close>










subsection \<open>Hourly aggregates (validate_hourly_data)\<close>







subsection \<open>The three tables together (validate_etl_pipeline)\<close>









section \<open>Concrete inputs\<close>

text \<open>The poll instant used in the examples: 1 May 2025, 10:30:15.\<close>

definition ex_poll_time :: datetime where
  "ex_poll_time =
     \<lparr>dt_year = 2025, dt_month = 5, dt_day = 1, dt_hour = 10, dt_minute = 30, dt_second = 15,
      dt_microsecond = 0\<rparr>"

text \<open>A station whose only connector is of type \<^verbatim>\<open>AC Type 2\<close>.\<close>

definition ex_ac_type2_station :: "json list" where
  "ex_ac_type2_station =
     [JObj [(''id'', JStr ''S1''),
            (''connectors'',
               JArr [JObj [(''id'', JStr ''C1''), (''type'', JStr ''AC Type 2''),
                           (''status'', JStr ''AVAILABLE'')]])]]"



text \<open>A station whose only connector carries no \<^verbatim>\<open>id\<close> and is occupied.\<close>

definition ex_no_connector_id_station :: "json list" where
  "ex_no_connector_id_station =
     [JObj [(''id'', JStr ''S1''),
            (''connectors'',
               JArr [JObj [(''type'', JStr ''CCS''), (''status'', JStr ''OCCUPIED'')]])]]"

text \<open>The station of the scenario in section 8 of the specification, with a faulted
  connector added.\<close>

definition ex_scenario_station :: "json list" where
  "ex_scenario_station =
     [JObj [(''id'', JStr ''S1''), (''totalConnectors'', JNum 2),
            (''connectors'',
               JArr [JObj [(''id'', JStr ''C1''), (''status'', JStr ''AVAILABLE'')],
                     JObj [(''id'', JStr ''C2''), (''status'', JStr ''OCCUPIED'')],
                     JObj [(''id'', JStr ''C3''), (''status'', JStr ''FAULTED'')]])]]"

text \<open>Station tables keyed by \<^verbatim>\<open>id\<close>: the merge scenario of section 8, a prior table with
  a station the next poll does not report, and a rowset that holds the same id twice.\<close>

definition ex_existing :: dataframe where
  "ex_existing =
     \<lparr>df_columns = [''id'', ''status''],
      df_rows = [[(''id'', Num 1), (''status'', Str ''Available'')]]\<rparr>"

definition ex_incoming :: dataframe where
  "ex_incoming =
     \<lparr>df_columns = [''id'', ''status''],
      df_rows = [[(''id'', Num 1), (''status'', Str ''Occupied'')],
                 [(''id'', Num 2), (''status'', Str ''Available'')]]\<rparr>"

definition ex_merged :: dataframe where
  "ex_merged =
     \<lparr>df_columns = [''id'', ''status''],
      df_rows = [[(''id'', Num 1), (''status'', Str ''Occupied'')],
                 [(''id'', Num 2), (''status'', Str ''Available'')]]\<rparr>"



definition ex_incoming_dup :: dataframe where
  "ex_incoming_dup =
     \<lparr>df_columns = [''id'', ''status''],
      df_rows = [[(''id'', Num 1), (''status'', Str ''Available'')],
                 [(''id'', Num 1), (''status'', Str ''Occupied'')]]\<rparr>"


text \<open>
  Hourly tables keyed by \<^verbatim>\<open>hourly_timestamp\<close> and \<^verbatim>\<open>station_id\<close>: a prior table with
  one row, and a rowset with a later value for the same hour and station.
\<close>

definition ex_hourly_existing :: dataframe where
  "ex_hourly_existing =
     \<lparr>df_columns = [''hourly_timestamp'', ''station_id'', ''is_occupied''],
      df_rows = [[(''hourly_timestamp'', Str ''2025-05-01T10:00:00''), (''station_id'', Str ''S1''),
                  (''is_occupied'', Num 0)]]\<rparr>"

definition ex_hourly_incoming :: dataframe where
  "ex_hourly_incoming =
     \<lparr>df_columns = [''hourly_timestamp'', ''station_id'', ''is_occupied''],
      df_rows = [[(''hourly_timestamp'', Str ''2025-05-01T10:00:00''), (''station_id'', Str ''S1''),
                  (''is_occupied'', Num 1)]]\<rparr>"

text \<open>
  Servers: one that cannot be reached, one that is reached at the second attempt and
  answers with a body that is not JSON under a release of the library before 2.27, and
  one that answers every attempt with a body that is not JSON under a later release.
\<close>

definition ex_server_down :: "nat \<Rightarrow> attempt_outcome" where
  "ex_server_down = (\<lambda>attempt. Raises ConnectionError)"

definition ex_server_old_bad_json :: "nat \<Rightarrow> attempt_outcome" where
  "ex_server_old_bad_json =
     (\<lambda>attempt. if attempt = 0 then Raises Timeout else Raises decoder_ValueError)"

definition ex_server_not_json :: "nat \<Rightarrow> attempt_outcome" where
  "ex_server_not_json = (\<lambda>attempt. Raises JSONDecodeError)"







section \<open>Properties of the transformer\<close>

lemma upper_Nil: "upper [] = []"
  by (simp add: upper_def)

lemma upper_Cons: "upper (c # cs) = upper_char c # upper cs"
  by (simp add: upper_def)

lemmas station_row_unfold =
  transform_stations_data_def station_row_def resolve_connectors_def get_def get_default_def
  initial_total_def zero_counts_def bump_str_def fold_ac_type2_def coordinate_def
  join_amenities_def derive_status_def fill_unknown_def upper_Nil upper_Cons upper_char_def

subsection \<open>Type buckets\<close>

lemma bump_count_Type2:
  "bump_count v c = Inr c' \<Longrightarrow>
     cnt_Type2 c' = cnt_Type2 c + (if v = JStr ''Type2'' then 1 else 0)"
  by (cases v) (auto simp: bump_str_def)

lemma bump_count_AC:
  "bump_count v c = Inr c' \<Longrightarrow>
     cnt_AC_Type_2 c' = cnt_AC_Type_2 c + (if v = JStr ''AC Type 2'' then 1 else 0)"
  by (cases v) (auto simp: bump_str_def)

lemma count_connector_Type2:
  "count_connector n c t = Inr t' \<Longrightarrow>
     cnt_Type2 (counts t') = cnt_Type2 (counts t) + (if has_type ''Type2'' c then 1 else 0) \<and>
     cnt_AC_Type_2 (counts t') =
       cnt_AC_Type_2 (counts t) + (if has_type ''AC Type 2'' c then 1 else 0)"
  by (cases c) (auto split: sum.splits dest: bump_count_Type2 bump_count_AC)

lemma count_connectors_Type2:
  "count_connectors n cs t = Inr t' \<Longrightarrow>
     cnt_Type2 (counts t') = cnt_Type2 (counts t) + type_count ''Type2'' cs \<and>
     cnt_AC_Type_2 (counts t') = cnt_AC_Type_2 (counts t) + type_count ''AC Type 2'' cs"
proof (induction cs arbitrary: t)
  case Nil
  then show ?case by (simp add: type_count_def)
next
  case (Cons c cs)
  from Cons.prems obtain t1 where
    c: "count_connector n c t = Inr t1" and cs: "count_connectors n cs t1 = Inr t'"
    by (auto split: sum.splits)
  from count_connector_Type2 [OF c] Cons.IH [OF cs] show ?case
    by (auto simp: type_count_def)
qed

text \<open>
  What the column holds for every station that yields a row: the \<^verbatim>\<open>Type2\<close> connectors
  once and the \<^verbatim>\<open>AC Type 2\<close> connectors twice.
\<close>

lemma type2_column_counts_ac_twice:
  assumes "station_row station = Inr r"
    and "resolve_connectors station = Inr connectors_list"
    and "iter_items connectors_list = Inr cs"
  shows "st_type2_connectors r = type_count ''Type2'' cs + 2 * type_count ''AC Type 2'' cs"
proof -
  from assms obtain t where
    t: "count_connectors (length cs) cs
          \<lparr>counts = zero_counts, available_connectors = 0,
           total_connectors = initial_total station\<rparr> = Inr t"
    and r: "st_type2_connectors r =
              cnt_Type2 (fold_ac_type2 (counts t)) + cnt_AC_Type_2 (fold_ac_type2 (counts t))"
    by (auto simp: station_row_def Let_def split: sum.splits)
  from count_connectors_Type2 [OF t] r show ?thesis
    by (simp add: fold_ac_type2_def zero_counts_def)
qed

text \<open>
  C9. The claim: \<^verbatim>\<open>type2_connectors\<close> is the number of \<^verbatim>\<open>Type2\<close> connectors plus the
  number of \<^verbatim>\<open>AC Type 2\<close> connectors, each counted once. On the station with one
  \<^verbatim>\<open>AC Type 2\<close> connector and no \<^verbatim>\<open>Type2\<close> connector the code gives 2.
\<close>

theorem type2_connectors_one_ac_type2_connector:
  "map_sum id (map st_type2_connectors) (transform_stations_data ex_ac_type2_station) = Inr [2]"
  by (simp add: ex_ac_type2_station_def station_row_unfold)

subsection \<open>Station status\<close>

text \<open>
  With a positive total and no available connector the second test of the chain (line 90)
  answers, before the branch that looks at the station's own status (lines 93-103).
\<close>

lemma derive_status_no_available:
  "0 < tot \<Longrightarrow> derive_status station tot 0 = JStr ''Occupied''"
  by (simp add: derive_status_def)









subsection \<open>Utilization flags\<close>

lemma map_connector_status_not_UNAVAILABLE: "map_connector_status s \<noteq> ''UNAVAILABLE''"
proof
  assume a: "map_connector_status s = ''UNAVAILABLE''"
  show False
  proof (cases "map_of connector_status_mapping (upper s)")
    case None
    with a have "s = ''UNAVAILABLE''" by (simp add: map_connector_status_def)
    then have "upper s = ''UNAVAILABLE''" by (simp add: upper_Nil upper_Cons upper_char_def)
    with None show False by (simp add: connector_status_mapping_def)
  next
    case (Some m)
    then have "m \<in> {''Available'', ''Occupied'', ''OutOfOrder''}"
      by (auto simp: connector_status_mapping_def split: if_splits)
    moreover from a Some have "m = ''UNAVAILABLE''" by (simp add: map_connector_status_def)
    ultimately show False by simp
  qed
qed

lemma normalize_not_UNAVAILABLE: "normalize_connector_status v \<noteq> JStr ''UNAVAILABLE''"
  by (cases v) (simp_all add: map_connector_status_not_UNAVAILABLE)

lemma connector_record_flags:
  "flags_of (connector_record ts hts sid c) =
     expected_flags (ut_status (connector_record ts hts sid c))"
  using normalize_not_UNAVAILABLE [of "get c ''status''"]
  by (simp add: connector_record_def Let_def flags_of_def expected_flags_def)

lemma connector_records_flags:
  "r \<in> set (connector_records ts hts sid cs) \<Longrightarrow> flags_of r = expected_flags (ut_status r)"
  by (induction ts hts sid cs rule: connector_records.induct) (auto simp: connector_record_flags)

lemma station_utilization_flags:
  "r \<in> set (station_utilization ts hts st) \<Longrightarrow> flags_of r = expected_flags (ut_status r)"
  by (auto simp: station_utilization_def connector_records_flags split: sum.splits)

lemma utilization_rows_flags:
  "utilization_rows ts hts sts = Inr recs \<Longrightarrow> r \<in> set recs \<Longrightarrow>
     flags_of r = expected_flags (ut_status r)"
  by (induction ts hts sts arbitrary: recs rule: utilization_rows.induct)
     (auto simp: station_utilization_flags split: sum.splits)

text \<open>
  C4. Every record of the utilization table has exactly the flag of its status set when
  the status is \<^verbatim>\<open>Available\<close>, \<^verbatim>\<open>Occupied\<close> or \<^verbatim>\<open>OutOfOrder\<close>, and no flag set for every
  other status value. The triple is (is_available, is_occupied, is_out_of_order).
\<close>

theorem utilization_flags_match_status:
  assumes "transform_utilization_data stations_data timestamp = Inr recs" and "r \<in> set recs"
  shows "(ut_is_available r, ut_is_occupied r, ut_is_out_of_order r) =
           (if ut_status r = JStr ''Available'' then (1, 0, 0)
            else if ut_status r = JStr ''Occupied'' then (0, 1, 0)
            else if ut_status r = JStr ''OutOfOrder'' then (0, 0, 1)
            else (0, 0, 0))"
proof (cases "stations_data = []")
  case True
  with assms show ?thesis by (simp add: transform_utilization_data_def)
next
  case False
  with assms have "utilization_rows timestamp (truncate_to_hour timestamp) stations_data = Inr recs"
    by (simp add: transform_utilization_data_def)
  from utilization_rows_flags [OF this assms(2)] show ?thesis
    by (simp add: flags_of_def expected_flags_def)
qed

lemmas utilization_unfold =
  transform_utilization_data_def station_utilization_def resolve_connectors_def get_def
  get_default_def connector_record_def map_connector_status_def connector_status_mapping_def
  truncate_to_hour_def upper_Nil upper_Cons upper_char_def

lemma ex_scenario_utilization:
  "map_sum id (map (\<lambda>r. (ut_connector_id r, ut_status r)))
     (transform_utilization_data ex_scenario_station ex_poll_time) =
   Inr [(JStr ''C1'', JStr ''Available''), (JStr ''C2'', JStr ''Occupied''),
        (JStr ''C3'', JStr ''FAULTED'')]"
  by (simp add: ex_scenario_station_def ex_poll_time_def utilization_unfold)

theorem utilization_flags_match_status_witness:
  "\<exists>recs. transform_utilization_data ex_scenario_station ex_poll_time = Inr recs \<and>
     map (\<lambda>r. (ut_status r, ut_is_available r, ut_is_occupied r, ut_is_out_of_order r)) recs =
       [(JStr ''Available'', 1, 0, 0), (JStr ''Occupied'', 0, 1, 0), (JStr ''FAULTED'', 0, 0, 0)]"
proof -
  obtain recs where recs: "transform_utilization_data ex_scenario_station ex_poll_time = Inr recs"
    using ex_scenario_utilization by (cases "transform_utilization_data ex_scenario_station ex_poll_time") auto
  with ex_scenario_utilization
  have st: "map ut_status recs = [JStr ''Available'', JStr ''Occupied'', JStr ''FAULTED'']"
    by (simp add: map_eq_Cons_conv) auto
  then obtain r1 r2 r3 where l: "recs = [r1, r2, r3]"
    by (auto simp: map_eq_Cons_conv)
  have "r1 \<in> set recs" "r2 \<in> set recs" "r3 \<in> set recs" using l by simp_all
  from this [THEN utilization_flags_match_status [OF recs]] st l
  have "map (\<lambda>r. (ut_status r, ut_is_available r, ut_is_occupied r, ut_is_out_of_order r)) recs =
       [(JStr ''Available'', 1, 0, 0), (JStr ''Occupied'', 0, 1, 0), (JStr ''FAULTED'', 0, 0, 0)]"
    by simp
  with recs show ?thesis by simp
qed


subsection \<open>Hourly rates\<close>

lemma sum_list_le_length:
  "(\<And>x. x \<in> set xs \<Longrightarrow> f x \<le> (1::nat)) \<Longrightarrow> sum_list (map f xs) \<le> length xs"
proof (induction xs)
  case Nil
  then show ?case by simp
next
  case (Cons a xs)
  have "f a \<le> 1" using Cons.prems by simp
  moreover have "sum_list (map f xs) \<le> length xs" using Cons by simp
  ultimately show ?case by simp
qed

lemma divide_counts_in_unit_interval:
  "0 < b \<Longrightarrow> a \<le> b \<Longrightarrow> in_unit_interval (divide_counts a b)"
  by (simp add: divide_counts_def)

lemma flags_le_1:
  "flags_of r = expected_flags (ut_status r) \<Longrightarrow> ut_is_occupied r \<le> 1 \<and> ut_is_available r \<le> 1"
  by (auto simp: flags_of_def expected_flags_def split: if_splits)

text \<open>
  When every record carries a connector id, the count of the group is its length, and
  the rates are proper fractions.
\<close>

lemma hourly_rates_with_connector_ids:
  assumes u: "transform_utilization_data stations_data timestamp = Inr u"
    and hs: "aggregate_hourly_utilization u = Inr hs"
    and h: "h \<in> set hs"
    and ids: "\<forall>r\<in>set u. ut_connector_id r \<noteq> JNull"
  shows "0 < hr_total_connectors h \<and> in_unit_interval (hr_occupancy_rate h) \<and>
         in_unit_interval (hr_availability_rate h)"
proof -
  have fl: "flags_of r = expected_flags (ut_status r)" if "r \<in> set u" for r
  proof (cases "stations_data = []")
    case True
    with u that show ?thesis by (simp add: transform_utilization_data_def)
  next
    case False
    with u have "utilization_rows timestamp (truncate_to_hour timestamp) stations_data = Inr u"
      by (simp add: transform_utilization_data_def)
    from utilization_rows_flags [OF this that] show ?thesis .
  qed
  define kept where "kept = filter (\<lambda>r. ut_station_id r \<noteq> JNull) u"
  from hs have "hs = map (\<lambda>k. aggregate_group k (filter (\<lambda>r. group_key r = k) kept))
                       (remdups (map group_key kept))"
    unfolding aggregate_hourly_utilization_def Let_def kept_def
    by (auto simp del: filter_filter split: if_splits)
  with h obtain k where k: "k \<in> set (map group_key kept)"
    and hk: "h = aggregate_group k (filter (\<lambda>r. group_key r = k) kept)"
    by auto
  define grp where "grp = filter (\<lambda>r. group_key r = k) kept"
  from k have ne: "grp \<noteq> []" by (auto simp: grp_def filter_empty_conv)
  have sub: "set grp \<subseteq> set u" by (auto simp: grp_def kept_def)
  with ids have "filter (\<lambda>r. ut_connector_id r \<noteq> JNull) grp = grp"
    by (auto simp: filter_id_conv)
  then have tot: "hr_total_connectors h = length grp"
    by (simp add: hk aggregate_group_def Let_def grp_def)
  have occ: "sum_list (map ut_is_occupied grp) \<le> length grp"
    using sub fl flags_le_1 by (intro sum_list_le_length) blast
  have av: "sum_list (map ut_is_available grp) \<le> length grp"
    using sub fl flags_le_1 by (intro sum_list_le_length) blast
  from ne have pos: "0 < length grp" by simp
  have "hr_occupancy_rate h = divide_counts (sum_list (map ut_is_occupied grp)) (length grp)"
    using \<open>filter (\<lambda>r. ut_connector_id r \<noteq> JNull) grp = grp\<close>
    by (simp add: hk aggregate_group_def Let_def grp_def)
  moreover have "hr_availability_rate h = divide_counts (sum_list (map ut_is_available grp)) (length grp)"
    using \<open>filter (\<lambda>r. ut_connector_id r \<noteq> JNull) grp = grp\<close>
    by (simp add: hk aggregate_group_def Let_def grp_def)
  ultimately show ?thesis
    using tot pos divide_counts_in_unit_interval [OF pos occ]
      divide_counts_in_unit_interval [OF pos av] by simp
qed

text \<open>
  C5. The claim: every hourly row made from the transformer's table has a positive
  \<^verbatim>\<open>total_connectors\<close> and both rates in [0,1]. On the station whose only connector has
  no \<^verbatim>\<open>id\<close> and is occupied, the row has \<^verbatim>\<open>total_connectors\<close> 0, an occupancy rate of
  \<^verbatim>\<open>inf\<close> and an availability rate of \<^verbatim>\<open>NaN\<close>.
\<close>

theorem hourly_row_connector_without_id:
  "map_sum id
     (map (\<lambda>h. (hr_is_occupied h, hr_total_connectors h, hr_occupancy_rate h,
                 hr_availability_rate h, in_unit_interval (hr_occupancy_rate h))))
     (hourly_from_poll ex_no_connector_id_station ex_poll_time) =
   Inr [(1, 0, RateInf, RateNaN, False)]"
  by (simp add: ex_no_connector_id_station_def ex_poll_time_def hourly_from_poll_def
      utilization_unfold aggregate_hourly_utilization_def aggregate_group_def group_key_def
      divide_counts_def)

section \<open>Properties of the persister\<close>

subsection \<open>Removing duplicate keys\<close>

lemma drop_duplicates_last_subset: "set (drop_duplicates_last ks rs) \<subseteq> set rs"
  by (induction rs) auto

lemma drop_duplicates_last_keys:
  "key_of ks ` set (drop_duplicates_last ks rs) = key_of ks ` set rs"
  by (induction rs) auto

lemma drop_duplicates_last_distinct: "distinct (map (key_of ks) (drop_duplicates_last ks rs))"
proof (induction rs)
  case Nil
  then show ?case by simp
next
  case (Cons r rs)
  show ?case
  proof (cases "key_of ks r \<in> set (map (key_of ks) rs)")
    case True
    with Cons show ?thesis by simp
  next
    case False
    then have "key_of ks r \<notin> key_of ks ` set (drop_duplicates_last ks rs)"
      by (simp add: drop_duplicates_last_keys)
    with False Cons show ?thesis by simp
  qed
qed

lemma drop_duplicates_last_id:
  "distinct (map (key_of ks) rs) \<Longrightarrow> drop_duplicates_last ks rs = rs"
  by (induction rs) auto

lemma drop_duplicates_last_append:
  "drop_duplicates_last ks (xs @ ys) =
     filter (\<lambda>r. key_of ks r \<notin> key_of ks ` set ys) (drop_duplicates_last ks xs) @
     drop_duplicates_last ks ys"
  by (induction xs) auto

lemma filter_keys_of_self:
  "filter (\<lambda>r. key_of ks r \<notin> key_of ks ` set ys) (drop_duplicates_last ks ys) = []"
  using drop_duplicates_last_subset [of ks ys] by (auto simp: filter_empty_conv)

lemma drop_duplicates_last_again:
  "drop_duplicates_last ks (drop_duplicates_last ks (xs @ ys) @ ys) =
     drop_duplicates_last ks (xs @ ys)"
proof -
  have "drop_duplicates_last ks (drop_duplicates_last ks (xs @ ys)) =
          drop_duplicates_last ks (xs @ ys)"
    by (rule drop_duplicates_last_id) (rule drop_duplicates_last_distinct)
  then have "drop_duplicates_last ks (drop_duplicates_last ks (xs @ ys) @ ys) =
      filter (\<lambda>r. key_of ks r \<notin> key_of ks ` set ys) (drop_duplicates_last ks (xs @ ys)) @
      drop_duplicates_last ks ys"
    by (simp add: drop_duplicates_last_append [of ks "drop_duplicates_last ks (xs @ ys)" ys])
  also have "\<dots> = drop_duplicates_last ks (xs @ ys)"
    by (simp add: drop_duplicates_last_append [of ks xs ys] filter_keys_of_self)
  finally show ?thesis .
qed


subsection \<open>Evaluating the file names\<close>

lemma lower_Nil: "lower [] = []"
  by (simp add: lower_def)

lemma lower_Cons: "lower (c # cs) = lower_char c # lower cs"
  by (simp add: lower_def)

lemma stations_file_key:
  "dedup_subset ''charging_stations.csv'' cols = (if ''id'' \<in> set cols then Some [''id''] else None)"
  by (simp add: dedup_subset_def lower_Nil lower_Cons lower_char_def)

lemma utilization_file_key:
  "dedup_subset ''utilization_data.csv'' cols =
     (if ''timestamp'' \<in> set cols \<and> ''connector_id'' \<in> set cols
      then Some [''timestamp'', ''connector_id''] else None)"
  by (simp add: dedup_subset_def lower_Nil lower_Cons lower_char_def)

text \<open>
  The configured name of the hourly table contains \<^verbatim>\<open>utilization\<close>, so the second
  branch answers for it and the branch for the hourly key is not reached.
\<close>

lemma hourly_file_key:
  "dedup_subset ''hourly_utilization.csv'' cols =
     (if ''timestamp'' \<in> set cols \<and> ''connector_id'' \<in> set cols
      then Some [''timestamp'', ''connector_id''] else None)"
  by (simp add: dedup_subset_def lower_Nil lower_Cons lower_char_def)


subsection \<open>The table after a call\<close>

lemma columns_concat_again:
  "df_columns (concat_frames (concat_frames a b) b) = df_columns (concat_frames a b)"
  by (auto simp: concat_frames_def filter_empty_conv)

lemma columns_concat_self: "df_columns (concat_frames d d) = df_columns d"
  by (auto simp: concat_frames_def filter_empty_conv)

lemma combine_selected:
  "dedup_subset filename (df_columns (concat_frames e d)) = Some ks \<Longrightarrow>
     combine filename e d = spec_merge ks (Some e) d"
  by (simp add: combine_def spec_merge_def Let_def)

lemma save_overwrite:
  "\<not> df_empty d \<Longrightarrow> \<not> append_flag \<or> table_of file = None \<Longrightarrow>
     save_to_csv (Some d) filename output_dir append_flag file =
       (Some (file_path output_dir filename), Some (Csv d))"
  by (cases "file" rule: table_of.cases) (auto simp: save_to_csv_def)

lemma save_merge:
  "\<not> df_empty d \<Longrightarrow>
     save_to_csv (Some d) filename output_dir True (Some (Csv e)) =
       (Some (file_path output_dir filename), Some (Csv (combine filename e d)))"
  by (simp add: save_to_csv_def)








subsection \<open>Saving the same rowset twice\<close>

lemma combine_again:
  assumes "dedup_subset filename (df_columns (concat_frames e d)) = Some ks"
  shows "combine filename (combine filename e d) d = combine filename e d"
proof -
  have c: "combine filename e d = spec_merge ks (Some e) d"
    using assms by (rule combine_selected)
  have cols: "df_columns (concat_frames (spec_merge ks (Some e) d) d) =
                df_columns (concat_frames e d)"
    by (auto simp: spec_merge_def concat_frames_def filter_empty_conv)
  then have "combine filename (spec_merge ks (Some e) d) d =
               spec_merge ks (Some (spec_merge ks (Some e) d)) d"
    using assms by (simp add: combine_selected)
  also have "\<dots> = spec_merge ks (Some e) d"
    using drop_duplicates_last_again [of ks "df_rows e" "df_rows d"]
    by (auto simp: spec_merge_def concat_frames_def filter_empty_conv)
  finally show ?thesis by (simp add: c)
qed

lemma combine_self:
  assumes "dedup_subset filename (df_columns d) = Some ks" and "key_unique ks d"
  shows "combine filename d d = d"
proof -
  have "drop_duplicates_last ks (df_rows d @ df_rows d) = df_rows d"
    using assms(2) drop_duplicates_last_subset [of ks "df_rows d"]
    by (simp add: drop_duplicates_last_append key_unique_def drop_duplicates_last_id
        filter_empty_conv)
  with assms(1) show ?thesis
    by (simp add: combine_def Let_def columns_concat_self) (simp add: concat_frames_def)
qed

text \<open>
  Saving the same rowset twice gives the table of saving it once when \<^verbatim>\<open>append\<close> is
  off; and, with \<^verbatim>\<open>append\<close> on, when the file name selects a key whose columns are there
  and either a readable prior table exists or there is no readable prior table and no
  two rows of the incoming rowset share the key.
\<close>

lemma save_twice_same_table:
  assumes "\<not> append_flag \<or>
           (\<exists>e ks. file = Some (Csv e) \<and>
                   dedup_subset filename (df_columns (concat_frames e d)) = Some ks) \<or>
           (\<exists>ks. table_of file = None \<and> dedup_subset filename (df_columns d) = Some ks \<and>
                 key_unique ks d)"
  shows "save_twice (Some d) filename output_dir append_flag file =
           snd (save_to_csv (Some d) filename output_dir append_flag file)"
proof (cases "df_empty d")
  case True
  then show ?thesis by (simp add: save_twice_def save_to_csv_def)
next
  case ne: False
  from assms consider (off) "\<not> append_flag"
    | (merge) e ks where "append_flag" "file = Some (Csv e)"
        "dedup_subset filename (df_columns (concat_frames e d)) = Some ks"
    | (first) ks where "append_flag" "table_of file = None"
        "dedup_subset filename (df_columns d) = Some ks" "key_unique ks d"
    by blast
  then show ?thesis
  proof cases
    case off
    with ne show ?thesis by (simp add: save_twice_def save_overwrite)
  next
    case merge
    with ne show ?thesis by (simp add: save_twice_def save_merge combine_again)
  next
    case first
    with ne show ?thesis by (simp add: save_twice_def save_overwrite save_merge combine_self)
  qed
qed

text \<open>
  The scenario of the specification saved twice; and a first write of a rowset that holds
  station 1 twice, which the second call, merging, reduces to one row.
\<close>

lemma save_twice_same_table_scenario:
  "save_twice (Some ex_incoming) ''charging_stations.csv'' ''data'' True (Some (Csv ex_existing)) =
     Some (Csv ex_merged) \<and>
   snd (save_to_csv (Some ex_incoming) ''charging_stations.csv'' ''data'' True
          (Some (Csv ex_existing))) = Some (Csv ex_merged)"
proof -
  have key: "dedup_subset ''charging_stations.csv'' (df_columns (concat_frames ex_existing ex_incoming)) =
               Some [''id'']"
    by (simp add: stations_file_key concat_frames_def ex_existing_def ex_incoming_def)
  have once: "snd (save_to_csv (Some ex_incoming) ''charging_stations.csv'' ''data'' True
          (Some (Csv ex_existing))) = Some (Csv ex_merged)"
    by (simp add: save_to_csv_def df_empty_def combine_def stations_file_key concat_frames_def
        ex_existing_def ex_incoming_def ex_merged_def key_of_def cell_at_def)
  from key have "\<not> True \<or>
           (\<exists>e ks. Some (Csv ex_existing) = Some (Csv e) \<and>
                   dedup_subset ''charging_stations.csv'' (df_columns (concat_frames e ex_incoming)) = Some ks) \<or>
           (\<exists>ks. table_of (Some (Csv ex_existing)) = None \<and>
                 dedup_subset ''charging_stations.csv'' (df_columns ex_incoming) = Some ks \<and>
                 key_unique ks ex_incoming)"
    by blast
  from save_twice_same_table [OF this, of "''data''"] once show ?thesis by simp
qed

lemma second_save_changes_first_write:
  "snd (save_to_csv (Some ex_incoming_dup) ''charging_stations.csv'' ''data'' True None) =
     Some (Csv ex_incoming_dup) \<and>
   save_twice (Some ex_incoming_dup) ''charging_stations.csv'' ''data'' True None =
     Some (Csv \<lparr>df_columns = [''id'', ''status''],
                df_rows = [[(''id'', Num 1), (''status'', Str ''Occupied'')]]\<rparr>) \<and>
   save_twice (Some ex_incoming_dup) ''charging_stations.csv'' ''data'' True None \<noteq>
     snd (save_to_csv (Some ex_incoming_dup) ''charging_stations.csv'' ''data'' True None)"
  by (simp add: save_twice_def save_to_csv_def df_empty_def combine_def stations_file_key
      concat_frames_def ex_incoming_dup_def key_of_def cell_at_def)

text \<open>
  C6. The claim: for every existing table and every incoming rowset, merging the rowset
  twice gives the table that merging it once gives. The configured name of the hourly
  table, \<^verbatim>\<open>hourly_utilization.csv\<close>, contains \<^verbatim>\<open>utilization\<close>, so the branch of line 36
  answers for it; an hourly table has neither \<^verbatim>\<open>timestamp\<close> nor \<^verbatim>\<open>connector_id\<close>, so
  nothing is removed, and the branch of line 41 with the key of the hourly table is not
  reached. With a prior table of one row, merging a rowset with a later value for the
  same hour and station leaves two rows, and merging it again leaves three.
\<close>

theorem hourly_merge_twice_adds_rows:
  "snd (save_to_csv (Some ex_hourly_incoming) ''hourly_utilization.csv'' ''data'' True
          (Some (Csv ex_hourly_existing))) =
     Some (Csv \<lparr>df_columns = [''hourly_timestamp'', ''station_id'', ''is_occupied''],
                df_rows =
                  [[(''hourly_timestamp'', Str ''2025-05-01T10:00:00''), (''station_id'', Str ''S1''),
                    (''is_occupied'', Num 0)],
                   [(''hourly_timestamp'', Str ''2025-05-01T10:00:00''), (''station_id'', Str ''S1''),
                    (''is_occupied'', Num 1)]]\<rparr>) \<and>
   save_twice (Some ex_hourly_incoming) ''hourly_utilization.csv'' ''data'' True
     (Some (Csv ex_hourly_existing)) =
     Some (Csv \<lparr>df_columns = [''hourly_timestamp'', ''station_id'', ''is_occupied''],
                df_rows =
                  [[(''hourly_timestamp'', Str ''2025-05-01T10:00:00''), (''station_id'', Str ''S1''),
                    (''is_occupied'', Num 0)],
                   [(''hourly_timestamp'', Str ''2025-05-01T10:00:00''), (''station_id'', Str ''S1''),
                    (''is_occupied'', Num 1)],
                   [(''hourly_timestamp'', Str ''2025-05-01T10:00:00''), (''station_id'', Str ''S1''),
                    (''is_occupied'', Num 1)]]\<rparr>)"
  by (simp add: save_twice_def save_to_csv_def df_empty_def combine_def hourly_file_key
      concat_frames_def ex_hourly_existing_def ex_hourly_incoming_def)

section \<open>Properties of the extractor\<close>

subsection \<open>Attempts\<close>

lemma requests_retry_trace: "requests (retry_trace d is) = is"
  by (induction d "is" rule: retry_trace.induct) simp_all

lemma sleeps_retry_trace: "sleeps (retry_trace d is) = replicate (length is - 1) d"
  by (induction d "is" rule: retry_trace.induct) simp_all

lemma retry_trace_step:
  "a < b \<Longrightarrow> Get i # Sleep d # retry_trace d [a..<b] = retry_trace d (i # [a..<b])"
  by (simp add: upt_conv_Cons)

lemma attempts_retry:
  "request_failure (server a) \<Longrightarrow> int a < max_retries \<Longrightarrow> 0 \<le> retry_delay \<Longrightarrow>
     attempts server max_retries retry_delay (a # rest) =
       (fst (attempts server max_retries retry_delay rest),
        Get a # Sleep retry_delay # snd (attempts server max_retries retry_delay rest))"
  by (cases "server a") (auto split: prod.splits)

lemma attempts_last:
  "request_failure (server a) \<Longrightarrow> \<not> int a < max_retries \<Longrightarrow>
     attempts server max_retries retry_delay (a # rest) = (No_data, [Get a])"
  by (cases "server a") auto

lemma attempts_stop:
  "\<not> request_failure (server a) \<Longrightarrow>
     attempts server max_retries retry_delay (a # rest) =
       (case server a of Response data \<Rightarrow> process_response data | Raises e \<Rightarrow> No_data, [Get a])"
  by (cases "server a") auto

text \<open>
  The events of the loop from attempt \<open>a\<close> on: requests with consecutive numbers, a sleep
  of the fixed delay between two of them, and a transport failure as the answer to every
  request but the last.
\<close>

lemma attempts_trace:
  assumes "n = nat (max_retries + 1)"
  shows "a \<le> n \<Longrightarrow>
     \<exists>k. a + k \<le> n \<and> (a < n \<longrightarrow> 0 < k) \<and>
         snd (attempts server max_retries retry_delay [a..<n]) = retry_trace retry_delay [a..<a + k] \<and>
         (\<forall>i. a \<le> i \<and> Suc i < a + k \<longrightarrow> request_failure (server i))"
proof (induction "n - a" arbitrary: a)
  case 0
  then have "a = n" by simp
  then show ?case by (intro exI [of _ 0]) auto
next
  case (Suc m)
  then have lt: "a < n" by simp
  then have l: "[a..<n] = a # [Suc a..<n]" by (simp add: upt_conv_Cons)
  have one: "[a..<a + 1] = [a]" by simp
  show ?case
  proof (cases "request_failure (server a) \<and> int a < max_retries \<and> \<not> retry_delay < 0")
    case False
    then have "snd (attempts server max_retries retry_delay [a..<n]) = [Get a]"
      by (cases "server a") (auto simp: l split: prod.splits)
    with lt one show ?thesis
      by (intro exI [of _ 1]) auto
  next
    case True
    with assms have lt': "Suc a < n" by linarith
    with Suc have "m = n - Suc a" "Suc a \<le> n" by simp_all
    from Suc.hyps(1) [OF this] lt' obtain k where
      k: "Suc a + k \<le> n" "0 < k"
         "snd (attempts server max_retries retry_delay [Suc a..<n]) =
            retry_trace retry_delay [Suc a..<Suc a + k]"
         "\<forall>i. Suc a \<le> i \<and> Suc i < Suc a + k \<longrightarrow> request_failure (server i)"
      by blast
    obtain r evs where re: "attempts server max_retries retry_delay [Suc a..<n] = (r, evs)"
      by (cases "attempts server max_retries retry_delay [Suc a..<n]")
    with k(3) have evs: "evs = retry_trace retry_delay [Suc a..<Suc a + k]"
      by (simp only: snd_conv)
    from True re have "snd (attempts server max_retries retry_delay [a..<n]) =
        Get a # Sleep retry_delay # evs"
      by (simp add: l attempts_retry del: attempts.simps)
    also have "\<dots> = retry_trace retry_delay (a # [Suc a..<Suc a + k])"
      unfolding evs using k(2) by (intro retry_trace_step) simp
    also have "a # [Suc a..<Suc a + k] = [a..<a + Suc k]"
      by (simp add: upt_conv_Cons)
    finally have tr: "snd (attempts server max_retries retry_delay [a..<n]) =
        retry_trace retry_delay [a..<a + Suc k]" .
    have "\<forall>i. a \<le> i \<and> Suc i < a + Suc k \<longrightarrow> request_failure (server i)"
    proof (intro allI impI)
      fix i assume i: "a \<le> i \<and> Suc i < a + Suc k"
      show "request_failure (server i)"
      proof (cases "i = a")
        case True
        with \<open>request_failure (server a) \<and> int a < max_retries \<and> \<not> retry_delay < 0\<close>
        show ?thesis by simp
      next
        case False
        with i have "Suc a \<le> i \<and> Suc i < Suc a + k" by simp
        with k(4) show ?thesis by blast
      qed
    qed
    with tr k(1) show ?thesis
      by (intro exI [of _ "Suc k"]) auto
  qed
qed

lemma attempts_ends:
  assumes "n = nat (max_retries + 1)" and "0 \<le> retry_delay" and "k < n"
    and "\<not> request_failure (server k)"
  shows "a \<le> k \<Longrightarrow> (\<forall>i. a \<le> i \<and> i < k \<longrightarrow> request_failure (server i)) \<Longrightarrow>
     attempts server max_retries retry_delay [a..<n] =
       (case server k of Response data \<Rightarrow> process_response data | Raises e \<Rightarrow> No_data,
        retry_trace retry_delay [a..<Suc k])"
proof (induction "k - a" arbitrary: a)
  case 0
  then have "a = k" by simp
  from assms have l: "[k..<n] = k # [Suc k..<n]" by (simp add: upt_conv_Cons)
  from assms(4) \<open>a = k\<close> show ?case
    by (simp add: l attempts_stop del: attempts.simps)
next
  case (Suc m)
  then have lt: "a < k" by simp
  with assms have l: "[a..<n] = a # [Suc a..<n]" by (simp add: upt_conv_Cons)
  from lt Suc.prems have sa: "request_failure (server a)" by simp
  from lt assms have am: "int a < max_retries" by linarith
  from Suc have "m = k - Suc a" "Suc a \<le> k"
    "\<forall>i. Suc a \<le> i \<and> i < k \<longrightarrow> request_failure (server i)"
    by simp_all
  from Suc.hyps(1) [OF this]
  have ih: "attempts server max_retries retry_delay [Suc a..<n] =
       (case server k of Response data \<Rightarrow> process_response data | Raises e \<Rightarrow> No_data,
        retry_trace retry_delay [Suc a..<Suc k])" .
  have "Get a # Sleep retry_delay # retry_trace retry_delay [Suc a..<Suc k] =
          retry_trace retry_delay (a # [Suc a..<Suc k])"
    using lt by (intro retry_trace_step) simp
  also have "a # [Suc a..<Suc k] = [a..<Suc k]"
    using lt by (simp add: upt_conv_Cons)
  finally show ?case
    using sa am assms(2) ih by (simp add: l attempts_retry del: attempts.simps)
qed

lemma attempts_exhausted:
  assumes "n = nat (max_retries + 1)" and "0 \<le> retry_delay"
  shows "a \<le> n \<Longrightarrow> (\<forall>i. a \<le> i \<and> i < n \<longrightarrow> request_failure (server i)) \<Longrightarrow>
     attempts server max_retries retry_delay [a..<n] = (No_data, retry_trace retry_delay [a..<n])"
proof (induction "n - a" arbitrary: a)
  case 0
  then show ?case by simp
next
  case (Suc m)
  then have lt: "a < n" by simp
  then have l: "[a..<n] = a # [Suc a..<n]" by (simp add: upt_conv_Cons)
  from lt Suc.prems have sa: "request_failure (server a)" by simp
  show ?case
  proof (cases "int a < max_retries")
    case True
    with assms have lt': "Suc a < n" by linarith
    from Suc have "m = n - Suc a" "Suc a \<le> n"
      "\<forall>i. Suc a \<le> i \<and> i < n \<longrightarrow> request_failure (server i)"
      by simp_all
    from Suc.hyps(1) [OF this]
    have ih: "attempts server max_retries retry_delay [Suc a..<n] =
                (No_data, retry_trace retry_delay [Suc a..<n])" .
    have "Get a # Sleep retry_delay # retry_trace retry_delay [Suc a..<n] =
            retry_trace retry_delay (a # [Suc a..<n])"
      using lt' by (intro retry_trace_step) simp
    with sa True assms(2) ih show ?thesis
      by (simp add: l attempts_retry del: attempts.simps)
  next
    case False
    with lt assms have "Suc a = n" by linarith
    then have "[a..<n] = [a]" by (simp add: upt_conv_Cons)
    with sa False show ?thesis
      by (simp add: attempts_last del: attempts.simps)
  qed
qed

text \<open>
  The loop for every bound, delay and server: at most \<^verbatim>\<open>max_retries + 1\<close> requests; the
  requests are the attempts 0, 1, ... in order, with one sleep of \<^verbatim>\<open>retry_delay\<close> between
  two of them and nothing else, and every request but the last was answered by an
  exception that is a \<^verbatim>\<open>RequestException\<close>; when every attempt is answered by such an
  exception the function returns no data after \<^verbatim>\<open>max_retries + 1\<close> requests; and when,
  after \<open>k\<close> of them, attempt \<open>k\<close> raises an exception that is no \<^verbatim>\<open>RequestException\<close>, the
  function returns no data and attempt \<open>k\<close> is its last request.
\<close>

lemma extract_attempts:
  "length (requests (snd (extract_charging_stations server max_retries retry_delay)))
     \<le> nat (max_retries + 1) \<and>
   (\<exists>k. snd (extract_charging_stations server max_retries retry_delay) =
           retry_trace retry_delay [0..<k] \<and>
        (\<forall>i. Suc i < k \<longrightarrow> request_failure (server i))) \<and>
   ((\<forall>i<nat (max_retries + 1). request_failure (server i)) \<and> 0 \<le> retry_delay \<longrightarrow>
      extract_charging_stations server max_retries retry_delay =
        (No_data, retry_trace retry_delay [0..<nat (max_retries + 1)])) \<and>
   (\<forall>k e. k < nat (max_retries + 1) \<and> (\<forall>i<k. request_failure (server i)) \<and>
        server k = Raises e \<and> \<not> request_exception e \<and> 0 \<le> retry_delay \<longrightarrow>
      extract_charging_stations server max_retries retry_delay =
        (No_data, retry_trace retry_delay [0..<Suc k]))"
proof -
  let ?n = "nat (max_retries + 1)"
  let ?run = "extract_charging_stations server max_retries retry_delay"
  from attempts_trace [of ?n max_retries 0 server retry_delay] obtain k where
    k: "k \<le> ?n" "snd ?run = retry_trace retry_delay [0..<k]"
       "\<forall>i. Suc i < k \<longrightarrow> request_failure (server i)"
    by (auto simp: extract_charging_stations_def)
  from k(1,2) have a: "length (requests (snd ?run)) \<le> ?n"
    by (simp add: requests_retry_trace)
  from k(2,3) have b: "\<exists>k. snd ?run = retry_trace retry_delay [0..<k] \<and>
        (\<forall>i. Suc i < k \<longrightarrow> request_failure (server i))"
    by blast
  have c: "?run = (No_data, retry_trace retry_delay [0..<?n])"
    if "(\<forall>i<?n. request_failure (server i)) \<and> 0 \<le> retry_delay"
    using that attempts_exhausted [of ?n max_retries retry_delay 0 server]
    by (simp add: extract_charging_stations_def)
  have d: "?run = (No_data, retry_trace retry_delay [0..<Suc j])"
    if "j < ?n \<and> (\<forall>i<j. request_failure (server i)) \<and> server j = Raises e \<and>
        \<not> request_exception e \<and> 0 \<le> retry_delay" for j e
    using that attempts_ends [of ?n max_retries retry_delay j server 0]
    by (simp add: extract_charging_stations_def)
  from a b c d show ?thesis by blast
qed

text \<open>
  A server that cannot be reached, with two retries allowed; and a body that is not JSON
  at the second attempt under a release of the library whose \<^verbatim>\<open>response.json()\<close> raises
  a plain \<^verbatim>\<open>ValueError\<close>: the handler of line 82 ends the call.
\<close>

lemma extract_attempts_examples:
  "extract_charging_stations ex_server_down 2 5 =
     (No_data, [Get 0, Sleep 5, Get 1, Sleep 5, Get 2]) \<and>
   extract_charging_stations ex_server_old_bad_json 3 5 = (No_data, [Get 0, Sleep 5, Get 1])"
proof -
  have three: "[0..<nat (2 + 1)] = [0, 1, 2]" "[0..<Suc 1] = [0, 1]"
    by (simp_all add: upt_conv_Cons)
  have "(\<forall>i<nat (2 + 1). request_failure (ex_server_down i)) \<and> (0::int) \<le> 5"
    by (simp add: ex_server_down_def ConnectionError_def)
  with extract_attempts [of ex_server_down 2 5]
  have a: "extract_charging_stations ex_server_down 2 5 =
             (No_data, retry_trace 5 [0..<nat (2 + 1)])"
    by blast
  have "(1::nat) < nat (3 + 1) \<and> (\<forall>i<1. request_failure (ex_server_old_bad_json i)) \<and>
        ex_server_old_bad_json 1 = Raises decoder_ValueError \<and>
        \<not> request_exception decoder_ValueError \<and> (0::int) \<le> 5"
    by (simp add: ex_server_old_bad_json_def Timeout_def decoder_ValueError_def)
  with extract_attempts [of ex_server_old_bad_json 3 5]
  have b: "extract_charging_stations ex_server_old_bad_json 3 5 =
             (No_data, retry_trace 5 [0..<Suc 1])"
    by blast
  from a b show ?thesis
    by (simp only: three retry_trace.simps simp_thms)
qed

text \<open>
  C7. The claim: a JSON parse failure on a response that was received makes the function
  fail at once, with no further attempt. Under the releases of the library since 2.27 the
  exception that \<^verbatim>\<open>response.json()\<close> raises is a \<^verbatim>\<open>RequestException\<close>, so the handler of line
  72 catches it before the handler of line 82 is tried: with the default three retries, a
  server that answers every attempt with a body that is not JSON is asked four times,
  with three sleeps, before the function returns no data.
\<close>

theorem json_parse_failure_is_retried:
  "extract_charging_stations ex_server_not_json 3 5 =
     (No_data, [Get 0, Sleep 5, Get 1, Sleep 5, Get 2, Sleep 5, Get 3])"
proof -
  have up: "[0..<4] = [0, 1, 2, 3::nat]"
    by (simp add: upt_conv_Cons)
  show ?thesis
    by (simp add: extract_charging_stations_def up ex_server_not_json_def JSONDecodeError_def)
qed

subsection \<open>The connectors of an extracted station\<close>









section \<open>Properties of the validator\<close>






















subsection \<open>The flag of the pipeline\<close>









end
